theory Spec2Isabelle
  imports Main
begin

section \<open>Mock CCTV camera server (cctvserver.py)\<close>

text \<open>
  A shallow embedding of \<^verbatim>\<open>cctvserver.py\<close>: the class \<^verbatim>\<open>SimpleCCTVCamera\<close> with its frame
  counter, the frame generator \<^verbatim>\<open>create_test_image\<close>, the three Flask views and the
  \<^verbatim>\<open>__main__\<close> block. The process state (the module-level \<^verbatim>\<open>camera\<close> object and the state
  of the \<^verbatim>\<open>random\<close> module) is passed explicitly; what the program reads from outside
  (the clock, and whether a call into Pillow or Flask raises) is an explicit input; an
  exception is the left summand of a sum type, and the state reached when it was raised
  is returned beside it, as Python keeps the mutations made before a raise.
\<close>

subsection \<open>Python values: integers as text, dates\<close>

definition digit_char :: "nat \<Rightarrow> char" where
  "digit_char d = ''0123456789'' ! d"

fun str_nat :: "nat \<Rightarrow> string" where
  "str_nat n = (if n < 10 then [digit_char n] else str_nat (n div 10) @ [digit_char (n mod 10)])"

declare str_nat.simps [simp del]

text \<open>Python's \<^verbatim>\<open>str(i)\<close> on an (unbounded) integer, as the f-string \<^verbatim>\<open>{self.frame_count}\<close> formats it.\<close>

definition str :: "int \<Rightarrow> string" where
  "str i = (if i < 0 then CHR ''-'' # str_nat (nat (- i)) else str_nat (nat i))"

definition zfill :: "nat \<Rightarrow> string \<Rightarrow> string" where
  "zfill w s = replicate (w - length s) (CHR ''0'') @ s"

text \<open>A reading of \<^verbatim>\<open>datetime.now()\<close>: a naive local date and time.\<close>

record datetime =
  year :: nat
  month :: nat
  day :: nat
  hour :: nat
  minute :: nat
  second :: nat
  microsecond :: nat

text \<open>\<^verbatim>\<open>strftime("%Y-%m-%d %H:%M:%S")\<close>, for the four-digit years a clock reading has.\<close>

definition strftime :: "datetime \<Rightarrow> string" where
  "strftime t =
     zfill 4 (str_nat (year t)) @ ''-'' @ zfill 2 (str_nat (month t)) @ ''-'' @
     zfill 2 (str_nat (day t)) @ '' '' @ zfill 2 (str_nat (hour t)) @ '':'' @
     zfill 2 (str_nat (minute t)) @ '':'' @ zfill 2 (str_nat (second t))"

text \<open>\<^verbatim>\<open>isoformat()\<close> of a naive datetime: the microseconds are left out when they are 0.\<close>

definition isoformat :: "datetime \<Rightarrow> string" where
  "isoformat t =
     zfill 4 (str_nat (year t)) @ ''-'' @ zfill 2 (str_nat (month t)) @ ''-'' @
     zfill 2 (str_nat (day t)) @ ''T'' @ zfill 2 (str_nat (hour t)) @ '':'' @
     zfill 2 (str_nat (minute t)) @ '':'' @ zfill 2 (str_nat (second t)) @
     (if microsecond t = 0 then [] else ''.'' @ zfill 6 (str_nat (microsecond t)))"

text \<open>\<^verbatim>\<open>range(start, stop, step)\<close> for a positive step, the only one the program uses.\<close>

definition range3 :: "int \<Rightarrow> int \<Rightarrow> int \<Rightarrow> int list" where
  "range3 start stop step =
     map (\<lambda>i. start + int i * step) [0..<nat ((stop - start + step - 1) div step)]"

subsection \<open>The random module\<close>

text \<open>
  The state of the \<^verbatim>\<open>random\<close> module is the sequence of raw values it will produce.
  \<^verbatim>\<open>random.randint(a, b)\<close> (called with \<open>a \<le> b\<close> only) consumes one of them and returns
  an integer between \<open>a\<close> and \<open>b\<close>, both included.
\<close>

type_synonym random_state = "nat \<Rightarrow> nat"

definition randint :: "int \<Rightarrow> int \<Rightarrow> random_state \<Rightarrow> int \<times> random_state" where
  "randint a b rs = (a + int (rs 0 mod nat (b - a + 1)), \<lambda>n. rs (Suc n))"

subsection \<open>Pillow: the canvas as the list of what was drawn on it\<close>

datatype colour = Named string | RGB int int int

datatype font = DefaultFont

datatype draw_op =
    Line "(int \<times> int) list" colour int
  | Rectangle "int list" colour colour
  | Text "int \<times> int" string colour "font option"
  | Ellipse "int list" colour

record image =
  mode :: string
  dimensions :: "int \<times> int"
  background :: colour
  drawn :: "draw_op list"

datatype bytes = Encoded string image

datatype error = LoadDefaultFailed | DrawTextFailed | SaveFailed | SendFileFailed

text \<open>
  What one request finds outside the program: the clock, and for each call into Pillow
  or Flask that can raise, whether it does. \<^verbatim>\<open>ImageDraw.text\<close> is given the \<^verbatim>\<open>font\<close>
  argument it is called with (\<open>None\<close> is Python's \<^verbatim>\<open>None\<close>).
\<close>

record world =
  now :: datetime
  load_default_raises :: bool
  text_raises :: "font option \<Rightarrow> bool"
  save_raises :: bool
  send_file_raises :: bool

definition Image_new :: "string \<Rightarrow> int \<times> int \<Rightarrow> colour \<Rightarrow> image" where
  "Image_new m sz c = \<lparr>mode = m, dimensions = sz, background = c, drawn = []\<rparr>"

definition draw_line :: "(int \<times> int) list \<Rightarrow> colour \<Rightarrow> int \<Rightarrow> image \<Rightarrow> image" where
  "draw_line pts fill width im = im\<lparr>drawn := drawn im @ [Line pts fill width]\<rparr>"

definition draw_rectangle :: "int list \<Rightarrow> colour \<Rightarrow> colour \<Rightarrow> image \<Rightarrow> image" where
  "draw_rectangle box fill outline im = im\<lparr>drawn := drawn im @ [Rectangle box fill outline]\<rparr>"

definition draw_ellipse :: "int list \<Rightarrow> colour \<Rightarrow> image \<Rightarrow> image" where
  "draw_ellipse box fill im = im\<lparr>drawn := drawn im @ [Ellipse box fill]\<rparr>"

definition load_default :: "world \<Rightarrow> error + font" where
  "load_default W = (if load_default_raises W then Inl LoadDefaultFailed else Inr DefaultFont)"

definition draw_text ::
  "world \<Rightarrow> int \<times> int \<Rightarrow> string \<Rightarrow> colour \<Rightarrow> font option \<Rightarrow> image \<Rightarrow> error + image" where
  "draw_text W xy s fill fnt im =
     (if text_raises W fnt then Inl DrawTextFailed
      else Inr (im\<lparr>drawn := drawn im @ [Text xy s fill fnt]\<rparr>))"

definition save :: "world \<Rightarrow> image \<Rightarrow> string \<Rightarrow> error + bytes" where
  "save W im fmt = (if save_raises W then Inl SaveFailed else Inr (Encoded fmt im))"

subsection \<open>SimpleCCTVCamera\<close>

record SimpleCCTVCamera =
  frame_count :: int

definition init :: SimpleCCTVCamera where
  "init = \<lparr>frame_count = 0\<rparr>"

record process =
  camera :: SimpleCCTVCamera
  random :: random_state

text \<open>One pass of the loop \<^verbatim>\<open>for _ in range(3)\<close>: seven draws, in the order of the source.\<close>

definition motion_rectangle :: "int \<Rightarrow> int \<Rightarrow> image \<times> random_state \<Rightarrow> image \<times> random_state" where
  "motion_rectangle width height st =
     (case st of (im, rs) \<Rightarrow>
       (case randint 0 (width - 100) rs of (x, rs) \<Rightarrow>
       (case randint 0 (height - 100) rs of (y, rs) \<Rightarrow>
       (case randint 30 100 rs of (w, rs) \<Rightarrow>
       (case randint 30 100 rs of (h, rs) \<Rightarrow>
       (case randint 100 255 rs of (r, rs) \<Rightarrow>
       (case randint 100 255 rs of (g, rs) \<Rightarrow>
       (case randint 100 255 rs of (b, rs) \<Rightarrow>
         (draw_rectangle [x, y, x + w, y + h] (RGB r g b) (Named ''white'') im, rs)))))))))"

definition create_test_image :: "world \<Rightarrow> process \<Rightarrow> (error + bytes) \<times> process" where
  "create_test_image W p =
    (let width = 640; height = 480;
         im = Image_new ''RGB'' (width, height) (Named ''darkgray'');
         im = fold (\<lambda>x. draw_line [(x, 0), (x, height)] (Named ''gray'') 1) (range3 0 width 50) im;
         im = fold (\<lambda>y. draw_line [(0, y), (width, y)] (Named ''gray'') 1) (range3 0 height 50) im;
         (im, rs) = fold (\<lambda>_. motion_rectangle width height) [0..<3] (im, random p);
         p = p\<lparr>random := rs\<rparr>;
         fnt = (case load_default W of Inl _ \<Rightarrow> None | Inr f \<Rightarrow> Some f)
     in case draw_text W (10, 10) ''MOCK CCTV - CAMERA 01'' (Named ''lime'') fnt im of
          Inl e \<Rightarrow> (Inl e, p)
        | Inr im \<Rightarrow>
       (let timestamp = strftime (now W) in
        case draw_text W (10, 30) timestamp (Named ''lime'') fnt im of
          Inl e \<Rightarrow> (Inl e, p)
        | Inr im \<Rightarrow>
       (let p = p\<lparr>camera := (camera p)\<lparr>frame_count := frame_count (camera p) + 1\<rparr>\<rparr> in
        case draw_text W (10, 50) (''Frame: '' @ str (frame_count (camera p))) (Named ''lime'') fnt im of
          Inl e \<Rightarrow> (Inl e, p)
        | Inr im \<Rightarrow>
       (let im = draw_ellipse [width - 50, 10, width - 30, 30] (Named ''red'') im in
        case draw_text W (width - 80, 12) ''REC'' (Named ''white'') fnt im of
          Inl e \<Rightarrow> (Inl e, p)
        | Inr im \<Rightarrow>
       (case save W im ''JPEG'' of
          Inl e \<Rightarrow> (Inl e, p)
        | Inr img_buffer \<Rightarrow> (Inr img_buffer, p))))))"

subsection \<open>The Flask views\<close>

datatype json = JStr string | JInt int

datatype return_value =
    Str string
  | Dict "(string \<times> json) list"
  | File bytes string

text \<open>A triple-quoted literal, line by line: the lines are joined by newline characters.\<close>

fun join_lines :: "string list \<Rightarrow> string" where
  "join_lines [] = []"
| "join_lines [l] = l"
| "join_lines (l # ls) = l @ [CHR 0x0A] @ join_lines ls"

text \<open>The page of \<^verbatim>\<open>home\<close>; the three pictographs are written as their UTF-8 bytes.\<close>

definition html :: string where
  \<open>html = join_lines [
   [],
   ''    <!DOCTYPE html>'',
   ''    <html>'',
   ''    <head>'',
   ''        <title>Mock CCTV Camera</title>'',
   ''        <style>'',
   ''            body { '',
   ''                font-family: Arial, sans-serif; '',
   ''                max-width: 800px; '',
   ''                margin: 50px auto; '',
   ''                padding: 20px;'',
   ''                background: #f0f0f0;'',
   ''            }'',
   ''            h1 { color: #333; }'',
   ''            .endpoint { '',
   ''                background: white; '',
   ''                padding: 15px; '',
   ''                margin: 10px 0; '',
   ''                border-radius: 5px;'',
   ''                box-shadow: 0 2px 5px rgba(0,0,0,0.1);'',
   ''            }'',
   ''            a { '',
   ''                color: #007bff; '',
   ''                text-decoration: none; '',
   ''                font-weight: bold;'',
   ''            }'',
   ''            a:hover { text-decoration: underline; }'',
   ''            img { '',
   ''                max-width: 100%; '',
   ''                margin-top: 20px; '',
   ''                border: 2px solid #333;'',
   ''                border-radius: 5px;'',
   ''            }'',
   ''            code {'',
   ''                background: #f4f4f4;'',
   ''                padding: 2px 5px;'',
   ''                border-radius: 3px;'',
   ''            }'',
   ''        </style>'',
   ''    </head>'',
   ''    <body>'',
   ''        <h1>'' @ [CHR 0xF0, CHR 0x9F, CHR 0x8E, CHR 0xA5] @ '' Mock CCTV Camera Server</h1>'',
   ''        <p>This server simulates a CCTV camera for testing with Power Automate.</p>'',
   ''        '',
   ''        <h2>Available Endpoints:</h2>'',
   ''        '',
   ''        <div class="endpoint">'',
   ''            <h3>'' @ [CHR 0xF0, CHR 0x9F, CHR 0x93, CHR 0xB8] @ '' Get Snapshot</h3>'',
   ''            <p>Returns a JPEG image from the camera</p>'',
   ''            <p>URL: <a href="/snapshot" target="_blank">http://localhost:5000/snapshot</a></p>'',
   ''            <p>Method: <code>GET</code></p>'',
   ''            <p>Returns: <code>image/jpeg</code></p>'',
   ''        </div>'',
   ''        '',
   ''        <div class="endpoint">'',
   ''            <h3>'' @ [CHR 0xF0, CHR 0x9F, CHR 0x93, CHR 0x8A] @ '' Get Camera Status</h3>'',
   ''            <p>Returns JSON with camera information</p>'',
   ''            <p>URL: <a href="/status" target="_blank">http://localhost:5000/status</a></p>'',
   ''            <p>Method: <code>GET</code></p>'',
   ''            <p>Returns: <code>application/json</code></p>'',
   ''        </div>'',
   ''        '',
   ''        <h2>Current Snapshot:</h2>'',
   ''        <img src="/snapshot" alt="Camera Snapshot" id="snapshot">'',
   ''        '',
   ''        <script>'',
   ''            // Auto-refresh image every 5 seconds'',
   ''            setInterval(function() {'',
   ''                document.getElementById('snapshot').src = '/snapshot?' + new Date().getTime();'',
   ''            }, 5000);'',
   ''        </script>'',
   ''        '',
   ''        <h2>Power Automate Integration:</h2>'',
   ''        <p>To use this in Power Automate:</p>'',
   ''        <ol>'',
   ''            <li>Use the HTTP action</li>'',
   ''            <li>Set Method to GET</li>'',
   ''            <li>Set URI to <code>http://localhost:5000/snapshot</code> or <code>http://YOUR_IP:5000/snapshot</code></li>'',
   ''            <li>The response will contain the image data</li>'',
   ''        </ol>'',
   ''    </body>'',
   ''    </html>'',
   ''    ''
  ]\<close>

definition home :: "world \<Rightarrow> process \<Rightarrow> (error + return_value) \<times> process" where
  "home W p = (Inr (Str html), p)"

definition send_file :: "world \<Rightarrow> bytes \<Rightarrow> string \<Rightarrow> error + return_value" where
  "send_file W buf mt = (if send_file_raises W then Inl SendFileFailed else Inr (File buf mt))"

definition snapshot :: "world \<Rightarrow> process \<Rightarrow> (error + return_value) \<times> process" where
  "snapshot W p =
     (case create_test_image W p of
        (Inl e, p) \<Rightarrow> (Inl e, p)
      | (Inr img_buffer, p) \<Rightarrow> (send_file W img_buffer ''image/jpeg'', p))"

definition status :: "world \<Rightarrow> process \<Rightarrow> (error + return_value) \<times> process" where
  "status W p =
     (Inr (Dict
       [(''camera_id'', JStr ''MOCK-CAM-01''),
        (''status'', JStr ''online''),
        (''timestamp'', JStr (isoformat (now W))),
        (''frame_count'', JInt (frame_count (camera p))),
        (''resolution'', JStr ''640x480''),
        (''location'', JStr ''Test Location''),
        (''type'', JStr ''Mock CCTV Camera'')]), p)"

text \<open>
  What Flask makes of a view's outcome: a string is an HTML page, a dictionary a JSON
  object, \<^verbatim>\<open>send_file\<close> a file of the given type; an exception that leaves the view is
  answered with status 500.
\<close>

datatype content =
    Page string
  | Object "(string \<times> json) list"
  | Binary bytes
  | Failure error

record response =
  status_code :: nat
  mimetype :: string
  content :: content

definition make_response :: "error + return_value \<Rightarrow> response" where
  "make_response rv =
     (case rv of
        Inl e \<Rightarrow> \<lparr>status_code = 500, mimetype = ''text/html'', content = Failure e\<rparr>
      | Inr (Str s) \<Rightarrow> \<lparr>status_code = 200, mimetype = ''text/html'', content = Page s\<rparr>
      | Inr (Dict d) \<Rightarrow> \<lparr>status_code = 200, mimetype = ''application/json'', content = Object d\<rparr>
      | Inr (File b mt) \<Rightarrow> \<lparr>status_code = 200, mimetype = mt, content = Binary b\<rparr>)"

datatype request = GET_home | GET_snapshot | GET_status

definition view :: "request \<Rightarrow> world \<Rightarrow> process \<Rightarrow> (error + return_value) \<times> process" where
  "view rq = (case rq of GET_home \<Rightarrow> home | GET_snapshot \<Rightarrow> snapshot | GET_status \<Rightarrow> status)"

definition handle :: "request \<Rightarrow> world \<Rightarrow> process \<Rightarrow> response \<times> process" where
  "handle rq W p = (case view rq W p of (rv, p) \<Rightarrow> (make_response rv, p))"

text \<open>The module is loaded: \<^verbatim>\<open>camera = SimpleCCTVCamera()\<close>.\<close>

definition start :: "random_state \<Rightarrow> process" where
  "start seed = \<lparr>camera = init, random = seed\<rparr>"

text \<open>A server lifetime: the requests are answered one after the other, each in its world.\<close>

fun serve :: "(request \<times> world) list \<Rightarrow> process \<Rightarrow> response list \<times> process" where
  "serve [] p = ([], p)"
| "serve ((rq, W) # rest) p =
     (case handle rq W p of (r, p) \<Rightarrow>
       (case serve rest p of (rs, p) \<Rightarrow> (r # rs, p)))"

text \<open>Calls of \<^verbatim>\<open>create_test_image\<close> one after the other; a call that raises does not stop the next.\<close>

fun generate_frames :: "world list \<Rightarrow> process \<Rightarrow> (error + bytes) list \<times> process" where
  "generate_frames [] p = ([], p)"
| "generate_frames (W # Ws) p =
     (case create_test_image W p of (r, p) \<Rightarrow>
       (case generate_frames Ws p of (rs, p) \<Rightarrow> (r # rs, p)))"

subsection \<open>The main block\<close>

record run_args =
  host :: string
  port :: int
  debug :: bool

definition banner :: "string list" where
  "banner =
     [[CHR 0x0A] @ replicate 50 (CHR ''=''),
      ''Mock CCTV Camera Server'',
      replicate 50 (CHR ''=''),
      [CHR 0x0A] @ ''Server is running at: http://localhost:5000'',
      [CHR 0x0A] @ ''Endpoints:'',
      ''  Home Page:    http://localhost:5000/'',
      ''  Snapshot:     http://localhost:5000/snapshot'',
      ''  Status:       http://localhost:5000/status'',
      [CHR 0x0A] @ ''Press Ctrl+C to stop the server'',
      replicate 50 (CHR ''='') @ [CHR 0x0A]]"

text \<open>
  The script is run with its command line and its environment, and reads neither: it
  prints the banner and calls \<^verbatim>\<open>app.run(host='0.0.0.0', port=5000, debug=True)\<close>.
\<close>

definition main :: "string list \<Rightarrow> (string \<times> string) list \<Rightarrow> string list \<times> run_args" where
  "main argv environ = (banner, \<lparr>host = ''0.0.0.0'', port = 5000, debug = True\<rparr>)"

subsection \<open>Reading a frame and a response\<close>

fun is_rectangle :: "draw_op \<Rightarrow> bool" where
  "is_rectangle (Rectangle box fill outline) = True"
| "is_rectangle _ = False"

definition rectangles_of :: "image \<Rightarrow> draw_op list" where
  "rectangles_of im = filter is_rectangle (drawn im)"

text \<open>
  A rectangle as the specification wants it: a box \<open>[x, y, x + w, y + h]\<close> with \<open>w\<close> and
  \<open>h\<close> between 30 and 100, inside the 640 by 480 canvas, filled with a colour whose
  channels lie between 100 and 255, outlined in white.
\<close>

fun well_placed :: "draw_op \<Rightarrow> bool" where
  "well_placed (Rectangle [x0, y0, x1, y1] (RGB r g b) outline) =
     (0 \<le> x0 \<and> 0 \<le> y0 \<and> 30 \<le> x1 - x0 \<and> x1 - x0 \<le> 100 \<and> 30 \<le> y1 - y0 \<and> y1 - y0 \<le> 100 \<and>
      x1 \<le> 640 \<and> y1 \<le> 480 \<and>
      100 \<le> r \<and> r \<le> 255 \<and> 100 \<le> g \<and> g \<le> 255 \<and> 100 \<le> b \<and> b \<le> 255 \<and>
      outline = Named ''white'')"
| "well_placed _ = False"

text \<open>
  The state of the random module after \<open>k\<close> draws, and the rectangle of one pass of the
  loop, from the seven draws the pass makes: every coordinate, size and channel has a
  draw of its own.
\<close>

definition skip :: "nat \<Rightarrow> random_state \<Rightarrow> random_state" where
  "skip k rs = (\<lambda>n. rs (k + n))"

definition rectangle_from :: "random_state \<Rightarrow> draw_op" where
  "rectangle_from rs =
     (let x = fst (randint 0 540 rs);
          y = fst (randint 0 380 (skip 1 rs));
          w = fst (randint 30 100 (skip 2 rs));
          h = fst (randint 30 100 (skip 3 rs));
          r = fst (randint 100 255 (skip 4 rs));
          g = fst (randint 100 255 (skip 5 rs));
          b = fst (randint 100 255 (skip 6 rs))
      in Rectangle [x, y, x + w, y + h] (RGB r g b) (Named ''white''))"

text \<open>
  The font the text calls are given (\<^verbatim>\<open>None\<close> when \<^verbatim>\<open>load_default\<close> raised and the bare
  \<^verbatim>\<open>except\<close> caught it), and the canvas of a call that meets no exception, written out.
\<close>

definition font_used :: "world \<Rightarrow> font option" where
  "font_used W = (if load_default_raises W then None else Some DefaultFont)"

definition frame :: "world \<Rightarrow> process \<Rightarrow> image" where
  "frame W p =
     \<lparr>mode = ''RGB'', dimensions = (640, 480), background = Named ''darkgray'',
      drawn =
        map (\<lambda>x. Line [(x, 0), (x, 480)] (Named ''gray'') 1) (range3 0 640 50) @
        map (\<lambda>y. Line [(0, y), (640, y)] (Named ''gray'') 1) (range3 0 480 50) @
        [rectangle_from (random p), rectangle_from (skip 7 (random p)),
         rectangle_from (skip 14 (random p))] @
        [Text (10, 10) ''MOCK CCTV - CAMERA 01'' (Named ''lime'') (font_used W),
         Text (10, 30) (strftime (now W)) (Named ''lime'') (font_used W),
         Text (10, 50) (''Frame: '' @ str (frame_count (camera p) + 1)) (Named ''lime'')
           (font_used W),
         Ellipse [590, 10, 610, 30] (Named ''red''),
         Text (560, 12) ''REC'' (Named ''white'') (font_used W)]\<rparr>"

fun text_of :: "int \<times> int \<Rightarrow> draw_op \<Rightarrow> string list" where
  "text_of xy (Text xy' s fill fnt) = (if xy' = xy then [s] else [])"
| "text_of xy _ = []"

text \<open>The strings written at a position of the canvas.\<close>

definition text_at :: "int \<times> int \<Rightarrow> image \<Rightarrow> string list" where
  "text_at xy im = concat (map (text_of xy) (drawn im))"

fun is_text :: "draw_op \<Rightarrow> bool" where
  "is_text (Text xy s fill fnt) = True"
| "is_text _ = False"

text \<open>The fields of a JSON answer, and the frame count it reports.\<close>

definition fields :: "response \<Rightarrow> (string \<rightharpoonup> json)" where
  "fields r = (case content r of Object d \<Rightarrow> map_of d | _ \<Rightarrow> Map.empty)"

definition reported_frame_count :: "response \<Rightarrow> int option" where
  "reported_frame_count r =
     (case fields r ''frame_count'' of Some (JInt n) \<Rightarrow> Some n | _ \<Rightarrow> None)"

text \<open>
  A snapshot request that succeeded, and one whose frame generation got as far as the
  counter: it succeeded, or it failed in the encoder or in \<^verbatim>\<open>send_file\<close>.
\<close>

fun successful :: "request \<times> response \<Rightarrow> bool" where
  "successful (GET_snapshot, r) = (status_code r = 200)"
| "successful _ = False"

fun counted :: "request \<times> response \<Rightarrow> bool" where
  "counted (GET_snapshot, r) =
     (status_code r = 200 \<or> content r = Failure SaveFailed \<or> content r = Failure SendFileFailed)"
| "counted _ = False"

definition exchanges :: "(request \<times> world) list \<Rightarrow> process \<Rightarrow> (request \<times> response) list" where
  "exchanges tr p = zip (map fst tr) (fst (serve tr p))"

subsection \<open>Concrete worlds\<close>

definition noon :: datetime where
  "noon = \<lparr>year = 2024, month = 3, day = 7, hour = 12, minute = 0, second = 5, microsecond = 0\<rparr>"

definition zeros :: random_state where
  "zeros n = 0"

definition ramp :: random_state where
  "ramp n = 97 * n"

text \<open>Nothing raises.\<close>

definition fair :: world where
  "fair = \<lparr>now = noon, load_default_raises = False, text_raises = (\<lambda>f. False),
            save_raises = False, send_file_raises = False\<rparr>"

text \<open>
  No font can be loaded: \<^verbatim>\<open>ImageFont.load_default()\<close> raises, and so does \<^verbatim>\<open>ImageDraw.text\<close>
  when it is called with \<^verbatim>\<open>font=None\<close> (Pillow then loads the default font itself).
\<close>

definition no_fonts :: world where
  "no_fonts = \<lparr>now = noon, load_default_raises = True, text_raises = (\<lambda>f. f = None),
                save_raises = False, send_file_raises = False\<rparr>"

text \<open>The JPEG encoder raises.\<close>

definition no_encoder :: world where
  "no_encoder = \<lparr>now = noon, load_default_raises = False, text_raises = (\<lambda>f. False),
                  save_raises = True, send_file_raises = False\<rparr>"

section \<open>Properties\<close>

subsection \<open>How a call of the frame generator ends\<close>

lemma snd_randint: "snd (randint a b rs) = skip 1 rs"
  by (simp add: randint_def skip_def)

lemma skip_skip: "skip a (skip b rs) = skip (b + a) rs"
  by (simp add: skip_def add.assoc)

lemma fold_draw_line:
  "fold (\<lambda>x. draw_line (f x) c w) xs im =
     im\<lparr>drawn := drawn im @ map (\<lambda>x. Line (f x) c w) xs\<rparr>"
  by (induction xs arbitrary: im) (simp_all add: draw_line_def)

lemma motion_rectangle_step:
  "motion_rectangle 640 480 (im, rs) =
     (im\<lparr>drawn := drawn im @ [rectangle_from rs]\<rparr>, skip 7 rs)"
  by (simp add: motion_rectangle_def rectangle_from_def draw_rectangle_def Let_def
      case_prod_beta snd_randint skip_skip eval_nat_numeral)

lemma three_passes:
  "fold (\<lambda>_. motion_rectangle 640 480) [0..<3] (im, rs) =
     (im\<lparr>drawn := drawn im @
        [rectangle_from rs, rectangle_from (skip 7 rs), rectangle_from (skip 14 rs)]\<rparr>,
      skip 21 rs)"
proof -
  have three: "[0..<3] = [0, 1, 2::nat]" by (simp add: upt_rec)
  show ?thesis
    unfolding three by (simp add: motion_rectangle_step skip_skip eval_nat_numeral)
qed

text \<open>The whole function, by the exception it meets first.\<close>

lemma create_test_image_eq:
  "create_test_image W p =
     (if text_raises W (font_used W)
      then (Inl DrawTextFailed, p\<lparr>random := skip 21 (random p)\<rparr>)
      else if save_raises W
      then (Inl SaveFailed,
            p\<lparr>random := skip 21 (random p),
              camera := (camera p)\<lparr>frame_count := frame_count (camera p) + 1\<rparr>\<rparr>)
      else (Inr (Encoded ''JPEG'' (frame W p)),
            p\<lparr>random := skip 21 (random p),
              camera := (camera p)\<lparr>frame_count := frame_count (camera p) + 1\<rparr>\<rparr>))"
  unfolding create_test_image_def Let_def fold_draw_line three_passes
  by (simp add: draw_text_def save_def load_default_def draw_ellipse_def Image_new_def
      font_used_def frame_def)

text \<open>
  A call raises in \<^verbatim>\<open>ImageDraw.text\<close>, before the counter is touched; or in the encoder,
  after the increment; or it returns the encoded frame, after the increment.
\<close>

lemma create_test_image_outcome:
  "create_test_image W p = (r, p') \<Longrightarrow>
     (r = Inl DrawTextFailed \<and> frame_count (camera p') = frame_count (camera p)) \<or>
     (r = Inl SaveFailed \<and> frame_count (camera p') = frame_count (camera p) + 1) \<or>
     (\<exists>im. r = Inr (Encoded ''JPEG'' im) \<and> frame_count (camera p') = frame_count (camera p) + 1)"
  by (auto simp: create_test_image_eq split: if_splits)

lemma create_test_image_raises_iff:
  "isl (fst (create_test_image W p)) \<longleftrightarrow>
     text_raises W (font_used W) \<or> save_raises W"
  by (simp add: create_test_image_eq)

lemma fair_returns: "\<not> isl (fst (create_test_image fair p))"
  by (simp add: create_test_image_raises_iff fair_def font_used_def)

lemma generate_frames_length: "length (fst (generate_frames Ws p)) = length Ws"
  by (induction Ws arbitrary: p) (simp_all add: case_prod_beta)

lemma generate_frames_count:
  "list_all (\<lambda>r. \<not> isl r) (fst (generate_frames Ws p)) \<Longrightarrow>
   frame_count (camera (snd (generate_frames Ws p))) = frame_count (camera p) + int (length Ws)"
proof (induction Ws arbitrary: p)
  case Nil
  then show ?case by simp
next
  case (Cons W Ws)
  obtain r p1 where c: "create_test_image W p = (r, p1)"
    by (cases "create_test_image W p")
  obtain rs p2 where g: "generate_frames Ws p1 = (rs, p2)"
    by (cases "generate_frames Ws p1")
  from Cons.prems c g have ok: "\<not> isl r"
    and rest: "list_all (\<lambda>r. \<not> isl r) (fst (generate_frames Ws p1))"
    by simp_all
  from create_test_image_outcome [OF c] ok
  have "frame_count (camera p1) = frame_count (camera p) + 1" by auto
  moreover from Cons.IH [OF rest] g
  have "frame_count (camera p2) = frame_count (camera p1) + int (length Ws)" by simp
  ultimately show ?case using c g by simp
qed

lemma view_count_bounds:
  "frame_count (camera p) \<le> frame_count (camera (snd (view rq W p))) \<and>
   frame_count (camera (snd (view rq W p))) \<le> frame_count (camera p) + 1"
proof (cases rq)
  case GET_snapshot
  obtain r p1 where c: "create_test_image W p = (r, p1)"
    by (cases "create_test_image W p")
  from create_test_image_outcome [OF c] c GET_snapshot show ?thesis
    by (auto simp: view_def snapshot_def split: sum.splits)
qed (simp_all add: view_def home_def status_def)

lemma handle_count_bounds:
  "frame_count (camera p) \<le> frame_count (camera (snd (handle rq W p))) \<and>
   frame_count (camera (snd (handle rq W p))) \<le> frame_count (camera p) + 1"
  using view_count_bounds [of p rq W] by (simp add: handle_def case_prod_beta)

lemma serve_count_mono:
  "frame_count (camera p) \<le> frame_count (camera (snd (serve tr p)))"
proof (induction tr arbitrary: p)
  case Nil
  show ?case by simp
next
  case (Cons a tr)
  obtain rq W where a: "a = (rq, W)" by (cases a)
  have "frame_count (camera p) \<le> frame_count (camera (snd (handle rq W p)))"
    using handle_count_bounds by blast
  also have "\<dots> \<le> frame_count (camera (snd (serve tr (snd (handle rq W p)))))"
    by (rule Cons.IH)
  finally show ?case using a by (simp add: case_prod_beta)
qed

subsection \<open>The frame a call returns\<close>

lemma randint_range:
  "a \<le> b \<Longrightarrow> a \<le> fst (randint a b rs) \<and> fst (randint a b rs) \<le> b"
proof -
  assume ab: "a \<le> b"
  have "rs 0 mod nat (b - a + 1) < nat (b - a + 1)"
    using ab by (intro mod_less_divisor) simp
  then have "int (rs 0 mod nat (b - a + 1)) \<le> b - a"
    using ab by linarith
  then show ?thesis by (simp add: randint_def)
qed

lemma well_placed_rectangle_from: "well_placed (rectangle_from rs)"
  using randint_range [of 0 540 rs] randint_range [of 0 380 "skip 1 rs"]
    randint_range [of 30 100 "skip 2 rs"] randint_range [of 30 100 "skip 3 rs"]
    randint_range [of 100 255 "skip 4 rs"] randint_range [of 100 255 "skip 5 rs"]
    randint_range [of 100 255 "skip 6 rs"]
  by (simp add: rectangle_from_def Let_def)

lemma is_rectangle_rectangle_from: "is_rectangle (rectangle_from rs)"
  by (simp add: rectangle_from_def Let_def)

lemma text_of_rectangle_from: "text_of xy (rectangle_from rs) = []"
  by (simp add: rectangle_from_def Let_def)

lemma is_text_rectangle_from: "\<not> is_text (rectangle_from rs)"
  by (simp add: rectangle_from_def Let_def)

lemma rectangles_of_frame:
  "rectangles_of (frame W p) =
     [rectangle_from (random p), rectangle_from (skip 7 (random p)),
      rectangle_from (skip 14 (random p))]"
  by (simp add: rectangles_of_def frame_def is_rectangle_rectangle_from filter_map o_def)

lemma text_at_frame:
  "text_at (10, 50) (frame W p) = [''Frame: '' @ str (frame_count (camera p) + 1)]"
  by (simp add: text_at_def frame_def text_of_rectangle_from o_def)

lemma returned_frame:
  "create_test_image W p = (Inr (Encoded fmt im), p') \<Longrightarrow>
     im = frame W p \<and> fmt = ''JPEG'' \<and>
     p' = p\<lparr>random := skip 21 (random p),
            camera := (camera p)\<lparr>frame_count := frame_count (camera p) + 1\<rparr>\<rparr>"
  by (auto simp: create_test_image_eq split: if_splits)

lemma fair_frame:
  "create_test_image fair p =
     (Inr (Encoded ''JPEG'' (frame fair p)),
      p\<lparr>random := skip 21 (random p),
        camera := (camera p)\<lparr>frame_count := frame_count (camera p) + 1\<rparr>\<rparr>)"
  by (simp add: create_test_image_eq fair_def font_used_def)

lemma str_small: "str 1 = ''1''" "str 3 = ''3''"
  by (simp_all add: str_def str_nat.simps digit_char_def)

text \<open>
  When \<^verbatim>\<open>load_default\<close> raises, the exception is caught and the call goes on with
  \<^verbatim>\<open>font = None\<close>: if \<^verbatim>\<open>ImageDraw.text\<close> accepts that, the frame is returned, and the four
  texts are on it (they are drawn, with no font given, not left out).
\<close>

lemma font_fallback_keeps_text:
  assumes "load_default_raises W" and "\<not> text_raises W None" and "\<not> save_raises W"
  shows "fst (create_test_image W p) = Inr (Encoded ''JPEG'' (frame W p)) \<and>
         filter is_text (drawn (frame W p)) =
           [Text (10, 10) ''MOCK CCTV - CAMERA 01'' (Named ''lime'') None,
            Text (10, 30) (strftime (now W)) (Named ''lime'') None,
            Text (10, 50) (''Frame: '' @ str (frame_count (camera p) + 1)) (Named ''lime'') None,
            Text (560, 12) ''REC'' (Named ''white'') None]"
  using assms
  by (simp add: create_test_image_eq font_used_def frame_def is_text_rectangle_from filter_map o_def)

subsection \<open>The requests of a server lifetime\<close>

lemma handle_counted:
  "frame_count (camera (snd (handle rq W p))) =
     frame_count (camera p) + (if counted (rq, fst (handle rq W p)) then 1 else 0)"
  by (cases rq)
    (simp_all add: handle_def view_def home_def status_def snapshot_def send_file_def
      make_response_def create_test_image_eq)

lemma exchanges_Cons:
  "exchanges ((rq, W) # tr) p =
     (rq, fst (handle rq W p)) # exchanges tr (snd (handle rq W p))"
  by (simp add: exchanges_def case_prod_beta)

lemma serve_Cons_snd:
  "snd (serve ((rq, W) # tr) p) = snd (serve tr (snd (handle rq W p)))"
  by (simp add: case_prod_beta)

lemma serve_counted:
  "frame_count (camera (snd (serve tr p))) =
     frame_count (camera p) + int (length (filter counted (exchanges tr p)))"
proof (induction tr arbitrary: p)
  case Nil
  show ?case by (simp add: exchanges_def)
next
  case (Cons a tr)
  obtain rq W where a: "a = (rq, W)" by (cases a)
  show ?case
    unfolding a serve_Cons_snd exchanges_Cons Cons.IH handle_counted [of rq W p]
    by simp
qed

lemma successful_counted: "successful e \<Longrightarrow> counted e"
  by (cases e rule: successful.cases) simp_all

lemma reported_status:
  "reported_frame_count (fst (handle GET_status W p)) = Some (frame_count (camera p))"
  by (simp add: reported_frame_count_def fields_def handle_def view_def status_def
      make_response_def)

lemma length_filter_mono:
  "(\<And>x. P x \<Longrightarrow> Q x) \<Longrightarrow> length (filter P xs) \<le> length (filter Q xs)"
  by (induction xs) auto

lemma no_encoder_snapshot:
  "handle GET_snapshot no_encoder p =
     (\<lparr>status_code = 500, mimetype = ''text/html'', content = Failure SaveFailed\<rparr>,
      p\<lparr>random := skip 21 (random p),
        camera := (camera p)\<lparr>frame_count := frame_count (camera p) + 1\<rparr>\<rparr>)"
  by (simp add: handle_def view_def snapshot_def create_test_image_eq no_encoder_def
      font_used_def make_response_def)

subsection \<open>The frame counter\<close>

text \<open>
  C1. The counter of a fresh camera is 0; after \<open>N\<close> calls of \<^verbatim>\<open>create_test_image\<close> one
  after the other, each of which returned its frame, it is \<open>N\<close>; and no request of a
  server lifetime, whatever it is and however it ends, makes the counter smaller.
\<close>

theorem frame_count_after_calls:
  "frame_count (camera (start seed)) = 0 \<and>
   (list_all (\<lambda>r. \<not> isl r) (fst (generate_frames Ws (start seed))) \<longrightarrow>
      frame_count (camera (snd (generate_frames Ws (start seed)))) = int (length Ws)) \<and>
   frame_count (camera p) \<le> frame_count (camera (snd (serve tr p)))"
  using generate_frames_count [of Ws "start seed"] serve_count_mono [of p tr]
  by (simp add: start_def init_def)

theorem frame_count_after_calls_witness:
  "list_all (\<lambda>r. \<not> isl r) (fst (generate_frames [fair, fair, fair] (start zeros))) \<and>
   frame_count (camera (snd (generate_frames [fair, fair, fair] (start zeros)))) = 3"
proof -
  have h: "list_all (\<lambda>r. \<not> isl r) (fst (generate_frames [fair, fair, fair] (start zeros)))"
    by (simp add: fair_returns case_prod_beta)
  with frame_count_after_calls [of zeros "[fair, fair, fair]"] show ?thesis by simp
qed

subsection \<open>The motion rectangles\<close>

text \<open>
  C5. A call that returns its frame has drawn exactly three rectangles on it. Each is a
  box \<open>[x, y, x + w, y + h]\<close> whose \<open>x\<close>, \<open>y\<close>, \<open>w\<close>, \<open>h\<close> and three colour channels
  come from seven draws of their own; \<open>w\<close> and \<open>h\<close> lie between 30 and 100,
  \<open>x + w \<le> 640\<close> and \<open>y + h \<le> 480\<close>, every channel of the fill lies between 100 and
  255, and the outline is white.
\<close>

theorem three_motion_rectangles:
  assumes "create_test_image W p = (Inr (Encoded fmt im), p')"
  shows "rectangles_of im =
           [rectangle_from (random p), rectangle_from (skip 7 (random p)),
            rectangle_from (skip 14 (random p))] \<and>
         length (rectangles_of im) = 3 \<and> list_all well_placed (rectangles_of im)"
  using returned_frame [OF assms]
  by (simp add: rectangles_of_frame well_placed_rectangle_from)

theorem three_motion_rectangles_witness:
  "create_test_image fair (start ramp) =
     (Inr (Encoded ''JPEG'' (frame fair (start ramp))),
      (start ramp)\<lparr>random := skip 21 ramp, camera := \<lparr>frame_count = 1\<rparr>\<rparr>) \<and>
   rectangles_of (frame fair (start ramp)) =
     [Rectangle [0, 97, 82, 134] (RGB 176 117 214) (Named ''white''),
      Rectangle [138, 14, 189, 91] (RGB 231 172 113) (Named ''white''),
      Rectangle [276, 312, 367, 358] (RGB 130 227 168) (Named ''white'')] \<and>
   list_all well_placed (rectangles_of (frame fair (start ramp)))"
proof -
  have c: "create_test_image fair (start ramp) =
     (Inr (Encoded ''JPEG'' (frame fair (start ramp))),
      (start ramp)\<lparr>random := skip 21 ramp, camera := \<lparr>frame_count = 1\<rparr>\<rparr>)"
    by (simp add: fair_frame start_def init_def)
  have r: "[rectangle_from ramp, rectangle_from (skip 7 ramp), rectangle_from (skip 14 ramp)] =
     [Rectangle [0, 97, 82, 134] (RGB 176 117 214) (Named ''white''),
      Rectangle [138, 14, 189, 91] (RGB 231 172 113) (Named ''white''),
      Rectangle [276, 312, 367, 358] (RGB 130 227 168) (Named ''white'')]"
    by (simp add: rectangle_from_def randint_def skip_def ramp_def Let_def)
  from three_motion_rectangles [OF c] r c show ?thesis
    by (simp add: start_def)
qed

subsection \<open>The frame label\<close>

text \<open>
  C6. A call that returns its frame has incremented the counter by exactly 1, and the
  text at (10, 50) of that frame is \<^verbatim>\<open>Frame: \<close> followed by the counter after the
  increment. So the call that follows \<open>N - 1\<close> calls which returned, on a fresh camera,
  writes \<^verbatim>\<open>Frame: N\<close>.
\<close>

theorem frame_label_after_increment:
  "(create_test_image W p = (Inr (Encoded fmt im), p') \<longrightarrow>
      frame_count (camera p') = frame_count (camera p) + 1 \<and>
      text_at (10, 50) im = [''Frame: '' @ str (frame_count (camera p'))]) \<and>
   (list_all (\<lambda>r. \<not> isl r) (fst (generate_frames Ws (start seed))) \<and>
    create_test_image V (snd (generate_frames Ws (start seed))) = (Inr (Encoded fmt' im'), p'') \<longrightarrow>
      text_at (10, 50) im' = [''Frame: '' @ str (int (length Ws) + 1)])"
proof (intro conjI impI)
  assume c: "create_test_image W p = (Inr (Encoded fmt im), p')"
  from returned_frame [OF c]
  show "frame_count (camera p') = frame_count (camera p) + 1" by simp
  from returned_frame [OF c]
  show "text_at (10, 50) im = [''Frame: '' @ str (frame_count (camera p'))]"
    by (simp add: text_at_frame)
next
  assume a: "list_all (\<lambda>r. \<not> isl r) (fst (generate_frames Ws (start seed))) \<and>
    create_test_image V (snd (generate_frames Ws (start seed))) = (Inr (Encoded fmt' im'), p'')"
  then have n: "frame_count (camera (snd (generate_frames Ws (start seed)))) = int (length Ws)"
    using generate_frames_count [of Ws "start seed"] by (simp add: start_def init_def)
  from a have "im' = frame V (snd (generate_frames Ws (start seed)))"
    using returned_frame by blast
  then show "text_at (10, 50) im' = [''Frame: '' @ str (int (length Ws) + 1)]"
    by (simp add: text_at_frame n)
qed

theorem frame_label_after_increment_witness:
  "list_all (\<lambda>r. \<not> isl r) (fst (generate_frames [fair, fair] (start ramp))) \<and>
   create_test_image fair (snd (generate_frames [fair, fair] (start ramp))) =
     (Inr (Encoded ''JPEG'' (frame fair (snd (generate_frames [fair, fair] (start ramp))))),
      (start ramp)\<lparr>random := skip 63 ramp, camera := \<lparr>frame_count = 3\<rparr>\<rparr>) \<and>
   text_at (10, 50) (frame fair (snd (generate_frames [fair, fair] (start ramp)))) = [''Frame: 3'']"
proof -
  have g: "snd (generate_frames [fair, fair] (start ramp)) =
      (start ramp)\<lparr>random := skip 42 ramp, camera := \<lparr>frame_count = 2\<rparr>\<rparr>"
    by (simp add: fair_frame start_def init_def skip_skip)
  have h: "list_all (\<lambda>r. \<not> isl r) (fst (generate_frames [fair, fair] (start ramp)))"
    by (simp add: fair_frame)
  have c: "create_test_image fair (snd (generate_frames [fair, fair] (start ramp))) =
     (Inr (Encoded ''JPEG'' (frame fair (snd (generate_frames [fair, fair] (start ramp))))),
      (start ramp)\<lparr>random := skip 63 ramp, camera := \<lparr>frame_count = 3\<rparr>\<rparr>)"
    unfolding g by (simp add: fair_frame start_def skip_skip)
  from frame_label_after_increment [of fair "snd (generate_frames [fair, fair] (start ramp))"
      "''JPEG''" "frame fair (snd (generate_frames [fair, fair] (start ramp)))"
      "(start ramp)\<lparr>random := skip 63 ramp, camera := \<lparr>frame_count = 3\<rparr>\<rparr>"
      "[fair, fair]" ramp fair "''JPEG''"
      "frame fair (snd (generate_frames [fair, fair] (start ramp)))"
      "(start ramp)\<lparr>random := skip 63 ramp, camera := \<lparr>frame_count = 3\<rparr>\<rparr>"] h c
  show ?thesis by (simp add: str_small)
qed

subsection \<open>Fonts that cannot be loaded\<close>

text \<open>
  C3. In a world where no font can be loaded, \<^verbatim>\<open>load_default\<close> raises and is caught,
  but the first \<^verbatim>\<open>draw.text\<close>, called with \<^verbatim>\<open>font=None\<close>, raises in its turn: the call
  returns no frame and the snapshot request is answered with status 500.
\<close>

theorem no_fonts_request_fails:
  "load_default no_fonts = Inl LoadDefaultFailed \<and>
   create_test_image no_fonts p = (Inl DrawTextFailed, p\<lparr>random := skip 21 (random p)\<rparr>) \<and>
   status_code (fst (handle GET_snapshot no_fonts p)) = 500"
  by (simp add: load_default_def create_test_image_eq font_used_def no_fonts_def
      handle_def view_def snapshot_def make_response_def)

subsection \<open>The status endpoint\<close>

text \<open>
  C4, as amended. At every point of a server lifetime, the \<^verbatim>\<open>frame_count\<close> that
  \<^verbatim>\<open>GET /status\<close> reports is the number of earlier snapshot requests whose frame
  generation reached the counter: those that succeeded, and those that failed after
  the increment, in the encoder or in \<^verbatim>\<open>send_file\<close>. It is never less than the number
  of successful snapshot requests.
\<close>

theorem status_reports_counted_snapshots:
  "reported_frame_count (fst (handle GET_status W (snd (serve tr (start seed))))) =
     Some (int (length (filter counted (exchanges tr (start seed))))) \<and>
   length (filter successful (exchanges tr (start seed))) \<le>
     length (filter counted (exchanges tr (start seed)))"
  using length_filter_mono [of successful counted "exchanges tr (start seed)"]
  by (simp add: reported_status serve_counted start_def init_def successful_counted)

text \<open>
  C4 as stated fails: a snapshot request that fails in the JPEG encoder is answered
  with status 500, no snapshot request has succeeded, and \<^verbatim>\<open>GET /status\<close> reports 1.
\<close>

theorem failed_snapshot_is_counted:
  "exchanges [(GET_snapshot, no_encoder)] (start zeros) =
     [(GET_snapshot, \<lparr>status_code = 500, mimetype = ''text/html'', content = Failure SaveFailed\<rparr>)] \<and>
   length (filter successful (exchanges [(GET_snapshot, no_encoder)] (start zeros))) = 0 \<and>
   reported_frame_count
     (fst (handle GET_status fair (snd (serve [(GET_snapshot, no_encoder)] (start zeros))))) = Some 1"
proof -
  have e: "exchanges [(GET_snapshot, no_encoder)] (start zeros) =
     [(GET_snapshot, \<lparr>status_code = 500, mimetype = ''text/html'', content = Failure SaveFailed\<rparr>)]"
    by (simp add: exchanges_def no_encoder_snapshot)
  have s: "frame_count (camera (snd (serve [(GET_snapshot, no_encoder)] (start zeros)))) = 1"
    by (simp add: no_encoder_snapshot start_def init_def)
  show ?thesis unfolding e reported_status s by simp
qed

text \<open>
  C7. Every answer to \<^verbatim>\<open>GET /status\<close> has status 200 and type \<^verbatim>\<open>application/json\<close>, and
  is an object with exactly seven fields: the five constants, the ISO format of the
  current time, and the current value of the frame counter.
\<close>

theorem status_response:
  "status_code (fst (handle GET_status W p)) = 200 \<and>
   mimetype (fst (handle GET_status W p)) = ''application/json'' \<and>
   (\<exists>d. content (fst (handle GET_status W p)) = Object d \<and> distinct (map fst d) \<and>
      map_of d =
        [''camera_id'' \<mapsto> JStr ''MOCK-CAM-01'',
         ''status'' \<mapsto> JStr ''online'',
         ''timestamp'' \<mapsto> JStr (isoformat (now W)),
         ''frame_count'' \<mapsto> JInt (frame_count (camera p)),
         ''resolution'' \<mapsto> JStr ''640x480'',
         ''location'' \<mapsto> JStr ''Test Location'',
         ''type'' \<mapsto> JStr ''Mock CCTV Camera''])"
  by (auto simp: handle_def view_def status_def make_response_def fun_upd_def)

text \<open>
  C9. \<^verbatim>\<open>GET /status\<close> (which reads \<^verbatim>\<open>camera.frame_count\<close>) and \<^verbatim>\<open>GET /\<close> leave the whole
  process state as it was; a request that changes the frame counter is a snapshot
  request.
\<close>

theorem status_has_no_effect:
  "snd (handle GET_status W p) = p \<and> snd (handle GET_home W p) = p \<and>
   (frame_count (camera (snd (handle rq W p))) \<noteq> frame_count (camera p) \<longrightarrow> rq = GET_snapshot)"
  by (cases rq) (simp_all add: handle_def view_def status_def home_def)

theorem status_has_no_effect_witness:
  "frame_count (camera (snd (handle GET_snapshot fair (start zeros)))) \<noteq>
     frame_count (camera (start zeros)) \<and>
   snd (handle GET_status fair (start zeros)) = start zeros"
proof -
  have "frame_count (camera (snd (handle GET_snapshot fair (start zeros)))) \<noteq>
     frame_count (camera (start zeros))"
    by (simp add: handle_def view_def snapshot_def fair_frame)
  with status_has_no_effect [of fair "start zeros" GET_snapshot] show ?thesis by simp
qed

subsection \<open>The home page\<close>

text \<open>
  C10. The answer to \<^verbatim>\<open>GET /\<close> is the same page whatever the clock, the libraries, the
  camera and the random module are, and the request changes none of them.
\<close>

theorem home_is_constant:
  "fst (handle GET_home W p) = fst (handle GET_home W' p') \<and>
   fst (handle GET_home W p) = \<lparr>status_code = 200, mimetype = ''text/html'', content = Page html\<rparr> \<and>
   snd (handle GET_home W p) = p"
  by (simp add: handle_def view_def home_def make_response_def)

subsection \<open>The port\<close>

text \<open>
  C8, as amended. The server is run on all interfaces (\<^verbatim>\<open>0.0.0.0\<close>) and on port 5000,
  whatever the command line and the environment are: the port is a constant of the
  script.
\<close>

theorem port_is_fixed:
  "snd (main argv environ) = \<lparr>host = ''0.0.0.0'', port = 5000, debug = True\<rparr>"
  by (simp add: main_def)

text \<open>
  C8 as stated fails: a command line and an environment that ask for port 8080 are
  answered with port 5000.
\<close>

theorem port_request_ignored:
  "port (snd (main [''cctvserver.py'', ''--port'', ''8080''] [(''PORT'', ''8080'')])) = 5000 \<and>
   port (snd (main [''cctvserver.py'', ''--port'', ''8080''] [(''PORT'', ''8080'')])) \<noteq> 8080"
  by (simp add: main_def)

end
